theory Spec2Isabelle
  imports Main "HOL-Library.AList"
begin

section \<open>Data model (synapse/models.py)\<close>

text \<open>
  The three enumerations of \<^verbatim>\<open>models.py\<close>. \<^verbatim>\<open>MessageType\<close> and \<^verbatim>\<open>AgentStatus\<close> mix in
  \<^verbatim>\<open>str\<close>, \<^verbatim>\<open>Priority\<close> mixes in \<^verbatim>\<open>int\<close>; the functions \<open>*_value\<close> give the \<^verbatim>\<open>.value\<close>
  of a member.
\<close>

datatype MessageType = ALERT | DATA | COMMAND | QUERY | RESPONSE | EVENT

datatype Priority = CRITICAL | HIGH | NORMAL | LOW | BACKGROUND

datatype AgentStatus = ONLINE | OFFLINE | BUSY

fun MessageType_value :: "MessageType \<Rightarrow> string" where
  "MessageType_value ALERT = ''alert''"
| "MessageType_value DATA = ''data''"
| "MessageType_value COMMAND = ''command''"
| "MessageType_value QUERY = ''query''"
| "MessageType_value RESPONSE = ''response''"
| "MessageType_value EVENT = ''event''"

fun Priority_value :: "Priority \<Rightarrow> int" where
  "Priority_value CRITICAL = 0"
| "Priority_value HIGH = 1"
| "Priority_value NORMAL = 2"
| "Priority_value LOW = 3"
| "Priority_value BACKGROUND = 4"

fun AgentStatus_value :: "AgentStatus \<Rightarrow> string" where
  "AgentStatus_value ONLINE = ''online''"
| "AgentStatus_value OFFLINE = ''offline''"
| "AgentStatus_value BUSY = ''busy''"

text \<open>
  Python values that travel in a payload or in a wire-form dictionary. A \<^verbatim>\<open>dict\<close> keeps
  insertion order, so it is an association list. Floats are left out: no function
  modelled here computes with them.
\<close>

datatype pyval =
    PNone
  | PBool bool
  | PInt int
  | PStr string
  | PList "pyval list"
  | PDict "(string \<times> pyval) list"

type_synonym pydict = "(string \<times> pyval) list"

text \<open>
  A \<^verbatim>\<open>datetime\<close> is an instant, counted in microseconds (the resolution of \<^verbatim>\<open>datetime\<close>
  and of \<^verbatim>\<open>timedelta\<close>). Every clock read of the source is \<^verbatim>\<open>datetime.now(timezone.utc)\<close>;
  the instant read is a parameter \<open>now\<close> of the operation that reads it.
\<close>

type_synonym datetime = int

record SynapseMessage =
  channel :: string
  sender :: string
  payload :: pydict
  mtype :: MessageType
  priority :: Priority
  mid :: string
  timestamp :: datetime
  ttl :: int
  reply_to :: "string option"

record AgentInfo =
  name :: string
  capabilities :: "string list"
  channels :: "string list"
  status :: AgentStatus
  registered_at :: datetime
  last_heartbeat :: datetime
  metadata :: pydict

record Channel =
  ch_name :: string
  description :: string
  created_at :: datetime
  message_count :: int

section \<open>Subscriptions (synapse/bus.py)\<close>

text \<open>
  What a delivery hook does when it is called (and, for a coroutine, awaited): it returns,
  it raises an exception derived from \<^verbatim>\<open>Exception\<close>, or it raises one that is not
  (\<^verbatim>\<open>KeyboardInterrupt\<close>, \<^verbatim>\<open>SystemExit\<close>, \<^verbatim>\<open>asyncio.CancelledError\<close>), which
  \<^verbatim>\<open>except Exception\<close> lets through.
\<close>

datatype hook_outcome = Returned | RaisedException | RaisedBaseException

record Subscription =
  agent_name :: string
  sub_channel :: string
  callback :: "(SynapseMessage \<Rightarrow> hook_outcome) option"
  priority_min :: Priority
  type_filter :: "MessageType option"

text \<open>
  Truth value of an optional \<^verbatim>\<open>MessageType\<close>: \<^verbatim>\<open>None\<close> is false, and a member of a
  \<^verbatim>\<open>str\<close>-mixed enumeration is true exactly when its string value is not empty.
\<close>

fun truthy_type_filter :: "MessageType option \<Rightarrow> bool" where
  "truthy_type_filter None = False"
| "truthy_type_filter (Some t) = (MessageType_value t \<noteq> [])"

definition matches :: "Subscription \<Rightarrow> SynapseMessage \<Rightarrow> bool" where
  "matches s msg =
     (if Priority_value (priority msg) > Priority_value (priority_min s) then False
      else if truthy_type_filter (type_filter s) \<and> Some (mtype msg) \<noteq> type_filter s then False
      else True)"

text \<open>
  \<^verbatim>\<open>to_dict\<close> and \<^verbatim>\<open>from_dict\<close> call \<^verbatim>\<open>datetime.isoformat\<close> and \<^verbatim>\<open>datetime.fromisoformat\<close> of
  the standard library; both are parameters here (\<open>isofmt\<close>, and \<open>fromiso\<close> with \<open>None\<close> for the
  \<^verbatim>\<open>ValueError\<close> of an unparsable string).
\<close>

datatype py_error = KeyError string | ValueError | TypeError | IllTyped

definition to_dict :: "(datetime \<Rightarrow> string) \<Rightarrow> SynapseMessage \<Rightarrow> pydict" where
  "to_dict isofmt m =
     [(''id'', PStr (mid m)),
      (''channel'', PStr (channel m)),
      (''sender'', PStr (sender m)),
      (''type'', PStr (MessageType_value (mtype m))),
      (''priority'', PInt (Priority_value (priority m))),
      (''payload'', PDict (payload m)),
      (''timestamp'', PStr (isofmt (timestamp m))),
      (''ttl'', PInt (ttl m)),
      (''reply_to'', (case reply_to m of None \<Rightarrow> PNone | Some r \<Rightarrow> PStr r))]"

text \<open>\<^verbatim>\<open>data[key]\<close>: a missing key raises \<^verbatim>\<open>KeyError\<close>.\<close>

definition getitem :: "pydict \<Rightarrow> string \<Rightarrow> py_error + pyval" where
  "getitem d k = (case map_of d k of None \<Rightarrow> Inl (KeyError k) | Some v \<Rightarrow> Inr v)"

text \<open>\<^verbatim>\<open>data.get(key, default)\<close>.\<close>

definition get_default :: "pydict \<Rightarrow> string \<Rightarrow> pyval \<Rightarrow> pyval" where
  "get_default d k dflt = (case map_of d k of None \<Rightarrow> dflt | Some v \<Rightarrow> v)"

text \<open>
  \<^verbatim>\<open>MessageType(v)\<close> and \<^verbatim>\<open>Priority(v)\<close>: the member whose value equals \<open>v\<close>, else
  \<^verbatim>\<open>ValueError\<close>. In Python \<^verbatim>\<open>True == 1\<close> and \<^verbatim>\<open>False == 0\<close>, so a boolean finds a
  \<^verbatim>\<open>Priority\<close>.
\<close>

definition all_MessageTypes :: "MessageType list" where
  "all_MessageTypes = [ALERT, DATA, COMMAND, QUERY, RESPONSE, EVENT]"

definition all_Priorities :: "Priority list" where
  "all_Priorities = [CRITICAL, HIGH, NORMAL, LOW, BACKGROUND]"

fun MessageType_of :: "pyval \<Rightarrow> py_error + MessageType" where
  "MessageType_of (PStr s) =
     (case find (\<lambda>t. MessageType_value t = s) all_MessageTypes of
        None \<Rightarrow> Inl ValueError
      | Some t \<Rightarrow> Inr t)"
| "MessageType_of _ = Inl ValueError"

fun Priority_of_int :: "int \<Rightarrow> py_error + Priority" where
  "Priority_of_int n =
     (case find (\<lambda>p. Priority_value p = n) all_Priorities of
        None \<Rightarrow> Inl ValueError
      | Some p \<Rightarrow> Inr p)"

fun Priority_of :: "pyval \<Rightarrow> py_error + Priority" where
  "Priority_of (PInt n) = Priority_of_int n"
| "Priority_of (PBool b) = Priority_of_int (if b then 1 else 0)"
| "Priority_of _ = Inl ValueError"

text \<open>\<^verbatim>\<open>datetime.fromisoformat(v)\<close>: \<^verbatim>\<open>TypeError\<close> unless \<open>v\<close> is a string.\<close>

fun fromisoformat :: "(string \<Rightarrow> datetime option) \<Rightarrow> pyval \<Rightarrow> py_error + datetime" where
  "fromisoformat fromiso (PStr s) =
     (case fromiso s of None \<Rightarrow> Inl ValueError | Some t \<Rightarrow> Inr t)"
| "fromisoformat fromiso _ = Inl TypeError"

text \<open>
  \<^verbatim>\<open>from_dict\<close> evaluates its keyword arguments from left to right, so the first failing
  one decides the exception. Python then builds the object whatever the remaining values
  are; a result whose \<^verbatim>\<open>id\<close>, \<^verbatim>\<open>channel\<close>, \<^verbatim>\<open>sender\<close>, \<^verbatim>\<open>payload\<close>, \<^verbatim>\<open>ttl\<close> or \<^verbatim>\<open>reply_to\<close>
  is not of the declared type is no \<open>SynapseMessage\<close> of this model and is \<open>IllTyped\<close>.
\<close>

definition build_message ::
  "pyval \<Rightarrow> pyval \<Rightarrow> pyval \<Rightarrow> MessageType \<Rightarrow> Priority \<Rightarrow> pyval \<Rightarrow> datetime \<Rightarrow> pyval \<Rightarrow> pyval
     \<Rightarrow> py_error + SynapseMessage" where
  "build_message vid vch vsnd t p vpayload ts vttl vreply =
     (case (vid, vch, vsnd, vpayload, vttl) of
        (PStr i, PStr c, PStr s, PDict pl, PInt n) \<Rightarrow>
          (case vreply of
             PNone \<Rightarrow> Inr \<lparr>channel = c, sender = s, payload = pl, mtype = t, priority = p,
                           mid = i, timestamp = ts, ttl = n, reply_to = None\<rparr>
           | PStr r \<Rightarrow> Inr \<lparr>channel = c, sender = s, payload = pl, mtype = t, priority = p,
                           mid = i, timestamp = ts, ttl = n, reply_to = Some r\<rparr>
           | _ \<Rightarrow> Inl IllTyped)
      | _ \<Rightarrow> Inl IllTyped)"

text \<open>Sequencing of steps that may raise: the first exception ends the evaluation.\<close>

definition and_then :: "py_error + 'a \<Rightarrow> ('a \<Rightarrow> py_error + 'b) \<Rightarrow> py_error + 'b" where
  "and_then r f = (case r of Inl e \<Rightarrow> Inl e | Inr v \<Rightarrow> f v)"

definition from_dict :: "(string \<Rightarrow> datetime option) \<Rightarrow> pydict \<Rightarrow> py_error + SynapseMessage" where
  "from_dict fromiso data =
     and_then (getitem data ''id'') (\<lambda>vid.
     and_then (getitem data ''channel'') (\<lambda>vch.
     and_then (getitem data ''sender'') (\<lambda>vsnd.
     and_then (getitem data ''type'') (\<lambda>vt.
     and_then (MessageType_of vt) (\<lambda>t.
     and_then (getitem data ''priority'') (\<lambda>vp.
     and_then (Priority_of vp) (\<lambda>p.
     and_then (getitem data ''payload'') (\<lambda>vpayload.
     and_then (getitem data ''timestamp'') (\<lambda>vts.
     and_then (fromisoformat fromiso vts) (\<lambda>ts.
       build_message vid vch vsnd t p vpayload ts
         (get_default data ''ttl'' (PInt 0)) (get_default data ''reply_to'' PNone)))))))))))"

section \<open>Agent registry (synapse/registry.py)\<close>

text \<open>
  \<^verbatim>\<open>_agents\<close> is a dictionary from names to \<^verbatim>\<open>AgentInfo\<close> objects, in insertion order.
  A clock read is the parameter \<open>now\<close>; the two reads that build a new \<^verbatim>\<open>AgentInfo\<close>
  (\<^verbatim>\<open>registered_at\<close>, \<^verbatim>\<open>last_heartbeat\<close>) are taken at the same instant.
\<close>

record AgentRegistry =
  agents :: "(string \<times> AgentInfo) list"
  heartbeat_timeout :: int

definition AgentRegistry_init :: "int \<Rightarrow> AgentRegistry" where
  "AgentRegistry_init timeout = \<lparr>agents = [], heartbeat_timeout = timeout\<rparr>"

text \<open>\<^verbatim>\<open>x or []\<close> for an optional list (and \<^verbatim>\<open>x or {}\<close> for an optional dictionary).\<close>

fun or_empty :: "'a list option \<Rightarrow> 'a list" where
  "or_empty None = []"
| "or_empty (Some xs) = (if xs = [] then [] else xs)"

definition register ::
  "datetime \<Rightarrow> string \<Rightarrow> string list option \<Rightarrow> string list option \<Rightarrow> pydict option
     \<Rightarrow> AgentRegistry \<Rightarrow> AgentRegistry \<times> AgentInfo" where
  "register now nm caps chans meta r =
     (case map_of (agents r) nm of
        Some agent \<Rightarrow>
          (let a1 = agent\<lparr>status := ONLINE, last_heartbeat := now\<rparr>;
               a2 = (case caps of None \<Rightarrow> a1 | Some c \<Rightarrow> a1\<lparr>capabilities := c\<rparr>);
               a3 = (case chans of None \<Rightarrow> a2 | Some c \<Rightarrow> a2\<lparr>channels := c\<rparr>);
               a4 = (case meta of None \<Rightarrow> a3 | Some d \<Rightarrow> a3\<lparr>metadata := d\<rparr>)
           in (r\<lparr>agents := AList.update nm a4 (agents r)\<rparr>, a4))
      | None \<Rightarrow>
          (let agent = \<lparr>name = nm, capabilities = or_empty caps, channels = or_empty chans,
                        status = ONLINE, registered_at = now, last_heartbeat = now,
                        metadata = or_empty meta\<rparr>
           in (r\<lparr>agents := AList.update nm agent (agents r)\<rparr>, agent)))"

definition unregister :: "string \<Rightarrow> AgentRegistry \<Rightarrow> AgentRegistry \<times> bool" where
  "unregister nm r =
     (case map_of (agents r) nm of
        Some agent \<Rightarrow> (r\<lparr>agents := AList.update nm (agent\<lparr>status := OFFLINE\<rparr>) (agents r)\<rparr>, True)
      | None \<Rightarrow> (r, False))"

definition heartbeat :: "datetime \<Rightarrow> string \<Rightarrow> AgentRegistry \<Rightarrow> AgentRegistry \<times> bool" where
  "heartbeat now nm r =
     (case map_of (agents r) nm of
        Some agent \<Rightarrow>
          (r\<lparr>agents := AList.update nm (agent\<lparr>last_heartbeat := now, status := ONLINE\<rparr>) (agents r)\<rparr>,
           True)
      | None \<Rightarrow> (fst (register now nm None None None r), True))"

definition get :: "AgentRegistry \<Rightarrow> string \<Rightarrow> AgentInfo option" where
  "get r nm = map_of (agents r) nm"

definition list_agents :: "AgentRegistry \<Rightarrow> AgentStatus option \<Rightarrow> AgentInfo list" where
  "list_agents r st =
     (let as = map snd (agents r)
      in case st of None \<Rightarrow> as | Some s \<Rightarrow> filter (\<lambda>a. status a = s) as)"

definition find_by_capability :: "AgentRegistry \<Rightarrow> string \<Rightarrow> AgentInfo list" where
  "find_by_capability r capability =
     filter (\<lambda>a. capability \<in> set (capabilities a) \<and> status a = ONLINE) (map snd (agents r))"

text \<open>
  \<^verbatim>\<open>delta = (now - agent.last_heartbeat).total_seconds()\<close> is the difference of the two
  instants in seconds, and \<^verbatim>\<open>delta > self._heartbeat_timeout\<close> compares it with a whole
  number of seconds. On exact values that is the comparison below, in microseconds.
  (Python computes \<^verbatim>\<open>total_seconds\<close> as a correctly rounded double; the rounding can change
  the comparison only for a timeout of \<open>2 ^ 34\<close> seconds, some 544 years, or more.)
\<close>

definition timed_out_after :: "int \<Rightarrow> datetime \<Rightarrow> datetime \<Rightarrow> bool" where
  "timed_out_after timeout now hb = (now - hb > timeout * 1000000)"

text \<open>
  The loop of \<^verbatim>\<open>check_timeouts\<close> over \<^verbatim>\<open>self._agents.values()\<close>: the entries already seen
  (with the status of a timed-out agent set to offline) and the names collected so far are
  the accumulators.
\<close>

fun check_timeouts_loop ::
  "int \<Rightarrow> datetime \<Rightarrow> (string \<times> AgentInfo) list \<Rightarrow> (string \<times> AgentInfo) list \<Rightarrow> string list
     \<Rightarrow> (string \<times> AgentInfo) list \<times> string list" where
  "check_timeouts_loop timeout now [] seen timed_out = (seen, timed_out)"
| "check_timeouts_loop timeout now ((k, agent) # rest) seen timed_out =
     (if status agent = ONLINE then
        (if timed_out_after timeout now (last_heartbeat agent)
         then check_timeouts_loop timeout now rest
                (seen @ [(k, agent\<lparr>status := OFFLINE\<rparr>)]) (timed_out @ [name agent])
         else check_timeouts_loop timeout now rest (seen @ [(k, agent)]) timed_out)
      else check_timeouts_loop timeout now rest (seen @ [(k, agent)]) timed_out)"

definition check_timeouts :: "datetime \<Rightarrow> AgentRegistry \<Rightarrow> AgentRegistry \<times> string list" where
  "check_timeouts now r =
     (let (as, timed_out) = check_timeouts_loop (heartbeat_timeout r) now (agents r) [] []
      in (r\<lparr>agents := as\<rparr>, timed_out))"

section \<open>Durable store (synapse/storage.py)\<close>

text \<open>
  A row of the table \<^verbatim>\<open>messages\<close>, with the values that \<^verbatim>\<open>store\<close> binds. The columns
  \<^verbatim>\<open>payload\<close> and \<^verbatim>\<open>timestamp\<close> hold text (\<^verbatim>\<open>json.dumps\<close> of the payload, \<^verbatim>\<open>isoformat\<close> of
  the timestamp); the row keeps the value that the text denotes. The table is the list of
  its rows in insertion order.
\<close>

record row =
  r_id :: string
  r_channel :: string
  r_sender :: string
  r_type :: string
  r_priority :: int
  r_payload :: pydict
  r_timestamp :: datetime
  r_ttl :: int
  r_reply_to :: "string option"

type_synonym MessageStore = "row list"

text \<open>
  What the library calls of one storage operation do (\<^verbatim>\<open>sqlite3.connect\<close>, the \<^verbatim>\<open>PRAGMA\<close>
  statements, \<^verbatim>\<open>json.dumps\<close>, the statement itself, \<^verbatim>\<open>commit\<close>): all of them are carried out;
  or one of them raises \<^verbatim>\<open>sqlite3.Error\<close>; or one of them raises an exception of another
  class (\<^verbatim>\<open>json.dumps\<close> on a payload that it cannot write, \<^verbatim>\<open>MemoryError\<close>,
  \<^verbatim>\<open>KeyboardInterrupt\<close>).
\<close>

datatype sqlite_outcome = SqliteOk | SqliteError | OtherException

definition row_of :: "SynapseMessage \<Rightarrow> row" where
  "row_of msg =
     \<lparr>r_id = mid msg, r_channel = channel msg, r_sender = sender msg,
      r_type = MessageType_value (mtype msg), r_priority = Priority_value (priority msg),
      r_payload = payload msg, r_timestamp = timestamp msg, r_ttl = ttl msg,
      r_reply_to = reply_to msg\<rparr>"

text \<open>
  The integers that \<^verbatim>\<open>sqlite3\<close> binds to a parameter: those of the signed 64-bit range. For
  any other \<^verbatim>\<open>int\<close> the binding raises \<^verbatim>\<open>OverflowError\<close>, which is not a \<^verbatim>\<open>sqlite3.Error\<close>. Of
  the values bound by \<^verbatim>\<open>store\<close> only \<^verbatim>\<open>ttl\<close> is an \<^verbatim>\<open>int\<close> of the caller's choice.
\<close>

definition int64 :: "int \<Rightarrow> bool" where
  "int64 n \<longleftrightarrow> - 9223372036854775808 \<le> n \<and> n \<le> 9223372036854775807"

text \<open>
  \<^verbatim>\<open>INSERT OR IGNORE\<close> on the primary key \<^verbatim>\<open>id\<close>: a row whose id is already in the table
  is skipped.
\<close>

definition insert_or_ignore :: "row \<Rightarrow> MessageStore \<Rightarrow> MessageStore" where
  "insert_or_ignore r db = (if r_id r \<in> set (map r_id db) then db else db @ [r])"

text \<open>
  \<^verbatim>\<open>store\<close> returns \<^verbatim>\<open>True\<close> after the statement and \<^verbatim>\<open>False\<close> in its handler, which catches
  \<^verbatim>\<open>sqlite3.Error\<close> only. Every other exception leaves \<^verbatim>\<open>store\<close> (\<open>None\<close>); the connection's
  context manager rolls back, so the table is as before.
\<close>

definition store ::
  "sqlite_outcome \<Rightarrow> SynapseMessage \<Rightarrow> MessageStore \<Rightarrow> (MessageStore \<times> bool) option" where
  "store sq msg db =
     (case sq of
        SqliteOk \<Rightarrow>
          if int64 (ttl msg) then Some (insert_or_ignore (row_of msg) db, True) else None
      | SqliteError \<Rightarrow> Some (db, False)
      | OtherException \<Rightarrow> None)"

definition count :: "MessageStore \<Rightarrow> string option \<Rightarrow> int" where
  "count db ch =
     (case ch of
        None \<Rightarrow> int (length db)
      | Some c \<Rightarrow> if c = [] then int (length db)
                  else int (length (filter (\<lambda>r. r_channel r = c) db)))"

text \<open>
  The \<^verbatim>\<open>WHERE\<close> clause of \<^verbatim>\<open>cleanup_expired\<close>:
  \<^verbatim>\<open>ttl > 0 AND CAST((julianday('now') - julianday(timestamp)) * 86400 AS INTEGER) > ttl\<close>.
  SQLite reads its clock once for the statement, in whole milliseconds, rounds the stored
  timestamp to the millisecond, subtracts the two Julian day numbers in double precision,
  multiplies by 86400 and truncates towards zero. The integer that it obtains for a row
  depends on the statement's clock read and on the row's timestamp; it is the parameter
  \<open>sql_age\<close>, a function of the timestamp.
\<close>

definition expired :: "(datetime \<Rightarrow> int) \<Rightarrow> row \<Rightarrow> bool" where
  "expired sql_age r = (r_ttl r > 0 \<and> sql_age (r_timestamp r) > r_ttl r)"

text \<open>
  \<^verbatim>\<open>cleanup_expired\<close> has no handler: every exception propagates (\<open>None\<close>). Otherwise the
  rows that satisfy the \<^verbatim>\<open>WHERE\<close> clause are deleted and their number is returned.
\<close>

definition cleanup_expired ::
  "sqlite_outcome \<Rightarrow> (datetime \<Rightarrow> int) \<Rightarrow> MessageStore \<Rightarrow> (MessageStore \<times> int) option" where
  "cleanup_expired sq sql_age db =
     (case sq of
        SqliteOk \<Rightarrow>
          Some (filter (\<lambda>r. \<not> expired sql_age r) db,
                int (length (filter (expired sql_age) db)))
      | SqliteError \<Rightarrow> None
      | OtherException \<Rightarrow> None)"

section \<open>Message bus (synapse/bus.py)\<close>

text \<open>
  \<^verbatim>\<open>xs[start:]\<close> as Python evaluates it: a negative start counts from the end, and a start
  out of range is clamped.
\<close>

definition slice_from :: "int \<Rightarrow> 'a list \<Rightarrow> 'a list" where
  "slice_from start xs =
     (let n = int (length xs);
          s = (if start < 0 then max (start + n) 0 else min start n)
      in drop (nat s) xs)"


text \<open>
  The state of a \<^verbatim>\<open>SynapseBus\<close>. \<^verbatim>\<open>_channels\<close> and \<^verbatim>\<open>_subscriptions\<close> are dictionaries in
  insertion order; \<^verbatim>\<open>_inbox\<close> is a \<^verbatim>\<open>defaultdict\<close> that is only ever read by key.
  \<^verbatim>\<open>_max_history\<close> and \<^verbatim>\<open>_max_inbox\<close> are set once by the constructor.
\<close>

definition max_history :: int where
  "max_history = 1000"

definition max_inbox :: int where
  "max_inbox = 100"

record SynapseBus =
  b_registry :: AgentRegistry
  b_storage :: "MessageStore option"
  b_channels :: "(string \<times> Channel) list"
  b_subscriptions :: "(string \<times> Subscription list) list"
  b_message_history :: "SynapseMessage list"
  b_inbox :: "string \<rightharpoonup> SynapseMessage list"

definition create_channel :: "datetime \<Rightarrow> string \<Rightarrow> string \<Rightarrow> SynapseBus \<Rightarrow> SynapseBus \<times> Channel" where
  "create_channel now nm desc b =
     (case map_of (b_channels b) nm of
        None \<Rightarrow>
          (let ch = \<lparr>ch_name = nm, description = desc, created_at = now, message_count = 0\<rparr>
           in (b\<lparr>b_channels := AList.update nm ch (b_channels b)\<rparr>, ch))
      | Some ch \<Rightarrow> (b, ch))"

definition default_channels :: "(string \<times> string) list" where
  "default_channels =
     [(''#alerts'', ''Critical notifications - crashes, stop-loss, system errors''),
      (''#market-data'', ''TESS market signals, prices, sentiment''),
      (''#learning'', ''Genesis insights, patterns, knowledge''),
      (''#commands'', ''Direct instructions (user -> agent)''),
      (''#heartbeat'', ''Agent health (automatic)''),
      (''#system'', ''Bus internal events'')]"

text \<open>
  The constructor: \<^verbatim>\<open>registry or AgentRegistry()\<close> (a registry object is always true), then
  the default channels (the dash and the arrow of two descriptions are written in ASCII).
\<close>

definition SynapseBus_init ::
  "datetime \<Rightarrow> AgentRegistry option \<Rightarrow> MessageStore option \<Rightarrow> SynapseBus" where
  "SynapseBus_init now reg sto =
     fold (\<lambda>(nm, desc) b. fst (create_channel now nm desc b)) default_channels
       \<lparr>b_registry = (case reg of None \<Rightarrow> AgentRegistry_init 60 | Some r \<Rightarrow> r),
        b_storage = sto, b_channels = [], b_subscriptions = [],
        b_message_history = [], b_inbox = Map.empty\<rparr>"

definition get_channel :: "SynapseBus \<Rightarrow> string \<Rightarrow> Channel option" where
  "get_channel b nm = map_of (b_channels b) nm"

definition list_channels :: "SynapseBus \<Rightarrow> Channel list" where
  "list_channels b = map snd (b_channels b)"

text \<open>\<^verbatim>\<open>self._subscriptions.get(ch, [])\<close>.\<close>

definition subs_on :: "SynapseBus \<Rightarrow> string \<Rightarrow> Subscription list" where
  "subs_on b ch = (case map_of (b_subscriptions b) ch of None \<Rightarrow> [] | Some l \<Rightarrow> l)"

definition subscribe ::
  "datetime \<Rightarrow> string \<Rightarrow> string \<Rightarrow> (SynapseMessage \<Rightarrow> hook_outcome) option \<Rightarrow> Priority
     \<Rightarrow> MessageType option \<Rightarrow> SynapseBus \<Rightarrow> SynapseBus \<times> Subscription" where
  "subscribe now agent ch cb pmin tf b =
     (let b1 = fst (create_channel now ch [] b);
          sub = \<lparr>agent_name = agent, sub_channel = ch, callback = cb,
                  priority_min = pmin, type_filter = tf\<rparr>
      in (b1\<lparr>b_subscriptions := AList.update ch (subs_on b1 ch @ [sub]) (b_subscriptions b1)\<rparr>,
          sub))"

text \<open>
  The loop of \<^verbatim>\<open>unsubscribe\<close>; \<^verbatim>\<open>self._subscriptions[ch]\<close> on a \<^verbatim>\<open>defaultdict\<close> creates a
  missing key.
\<close>

fun unsubscribe_loop ::
  "string \<Rightarrow> string list \<Rightarrow> (string \<times> Subscription list) list \<Rightarrow> int
     \<Rightarrow> (string \<times> Subscription list) list \<times> int" where
  "unsubscribe_loop agent [] subs removed = (subs, removed)"
| "unsubscribe_loop agent (ch # chs) subs removed =
     (let cur = (case map_of subs ch of None \<Rightarrow> [] | Some l \<Rightarrow> l);
          kept = filter (\<lambda>s. agent_name s \<noteq> agent) cur
      in unsubscribe_loop agent chs (AList.update ch kept subs)
           (removed + (int (length cur) - int (length kept))))"

definition unsubscribe :: "string \<Rightarrow> string option \<Rightarrow> SynapseBus \<Rightarrow> SynapseBus \<times> int" where
  "unsubscribe agent ch b =
     (let chs = (case ch of
                   None \<Rightarrow> map fst (b_subscriptions b)
                 | Some c \<Rightarrow> if c \<noteq> [] then [c] else map fst (b_subscriptions b));
          (subs, removed) = unsubscribe_loop agent chs (b_subscriptions b) 0
      in (b\<lparr>b_subscriptions := subs\<rparr>, removed))"

text \<open>
  The inbox of an agent, empty when the agent has no entry: \<^verbatim>\<open>self._inbox[agent]\<close> on the
  \<^verbatim>\<open>defaultdict\<close> and \<^verbatim>\<open>self._inbox.get(agent, [])\<close>.
\<close>

definition inbox_of :: "(string \<rightharpoonup> SynapseMessage list) \<Rightarrow> string \<Rightarrow> SynapseMessage list" where
  "inbox_of inb agent = (case inb agent of None \<Rightarrow> [] | Some l \<Rightarrow> l)"

text \<open>
  \<^verbatim>\<open>inbox.append(msg)\<close>, then the cut to the last \<^verbatim>\<open>_max_inbox\<close> entries when the inbox
  has grown beyond that.
\<close>

definition inbox_append :: "SynapseMessage \<Rightarrow> SynapseMessage list \<Rightarrow> SynapseMessage list" where
  "inbox_append msg inbox =
     (let inbox1 = inbox @ [msg]
      in if int (length inbox1) > max_inbox then slice_from (- max_inbox) inbox1 else inbox1)"

text \<open>
  How a call of \<^verbatim>\<open>publish\<close> ends: it returns the number \<^verbatim>\<open>delivered\<close>, or an exception
  leaves it: one raised by a hook that \<^verbatim>\<open>except Exception\<close> does not catch, or one raised
  by \<^verbatim>\<open>self.storage.store(msg)\<close>, which is called outside any \<^verbatim>\<open>try\<close>.
\<close>

datatype publish_end = Delivered int | Propagated

text \<open>
  The delivery loop of \<^verbatim>\<open>publish\<close> over the subscriptions of the channel. Its state is the
  inboxes, the agents whose hook has been called so far (in call order) and the counter
  \<^verbatim>\<open>delivered\<close>. A hook that raises an \<^verbatim>\<open>Exception\<close> is logged and the loop goes on.
\<close>

fun deliver ::
  "SynapseMessage \<Rightarrow> Subscription list \<Rightarrow> (string \<rightharpoonup> SynapseMessage list) \<Rightarrow> string list \<Rightarrow> int
     \<Rightarrow> (string \<rightharpoonup> SynapseMessage list) \<times> string list \<times> publish_end" where
  "deliver msg [] inb called delivered = (inb, called, Delivered delivered)"
| "deliver msg (sub # subs) inb called delivered =
     (if \<not> matches sub msg then deliver msg subs inb called delivered
      else
        (let inb1 = inb(agent_name sub \<mapsto> inbox_append msg (inbox_of inb (agent_name sub)))
         in case callback sub of
              None \<Rightarrow> deliver msg subs inb1 called (delivered + 1)
            | Some cb \<Rightarrow>
                (case cb msg of
                   Returned \<Rightarrow> deliver msg subs inb1 (called @ [agent_name sub]) (delivered + 1)
                 | RaisedException \<Rightarrow>
                     deliver msg subs inb1 (called @ [agent_name sub]) (delivered + 1)
                 | RaisedBaseException \<Rightarrow> (inb1, called @ [agent_name sub], Propagated))))"

text \<open>
  \<^verbatim>\<open>publish\<close>. The result is the bus after the call, the agents whose hooks were called,
  and how the call ended. The effects made before an exception propagates stay. A
  \<^verbatim>\<open>MessageStore\<close> object is always true, so \<^verbatim>\<open>if self.storage\<close> tests for \<^verbatim>\<open>None\<close>; the
  value that \<^verbatim>\<open>store\<close> returns is dropped.
\<close>

definition bump_count :: "Channel \<Rightarrow> Channel" where
  "bump_count ch = ch\<lparr>message_count := message_count ch + 1\<rparr>"

definition history_append :: "SynapseMessage \<Rightarrow> SynapseMessage list \<Rightarrow> SynapseMessage list" where
  "history_append msg hist =
     (let hist1 = hist @ [msg]
      in if int (length hist1) > max_history then slice_from (- max_history) hist1 else hist1)"

definition publish ::
  "sqlite_outcome \<Rightarrow> datetime \<Rightarrow> SynapseMessage \<Rightarrow> SynapseBus
     \<Rightarrow> SynapseBus \<times> string list \<times> publish_end" where
  "publish sq now msg b =
     (let b1 = fst (create_channel now (channel msg) [] b);
          b2 = b1\<lparr>b_channels := AList.map_entry (channel msg) bump_count (b_channels b1)\<rparr>;
          b3 = b2\<lparr>b_message_history := history_append msg (b_message_history b2)\<rparr>;
          (inb, called, res) = deliver msg (subs_on b3 (channel msg)) (b_inbox b3) [] 0;
          b4 = b3\<lparr>b_inbox := inb\<rparr>
      in case res of
           Propagated \<Rightarrow> (b4, called, Propagated)
         | Delivered n \<Rightarrow>
             (case b_storage b4 of
                None \<Rightarrow> (b4, called, Delivered n)
              | Some db \<Rightarrow>
                  (case store sq msg db of
                     None \<Rightarrow> (b4, called, Propagated)
                   | Some (db1, ok) \<Rightarrow> (b4\<lparr>b_storage := Some db1\<rparr>, called, Delivered n))))"


definition clear_inbox :: "string \<Rightarrow> SynapseBus \<Rightarrow> SynapseBus \<times> int" where
  "clear_inbox agent b =
     (b\<lparr>b_inbox := (b_inbox b)(agent \<mapsto> [])\<rparr>,
      int (length (inbox_of (b_inbox b) agent)))"


definition stats :: "SynapseBus \<Rightarrow> pydict" where
  "stats b =
     [(''channels'', PInt (int (length (b_channels b)))),
      (''subscriptions'', PInt (sum_list (map (\<lambda>(k, l). int (length l)) (b_subscriptions b)))),
      (''agents_online'', PInt (int (length (list_agents (b_registry b) None)))),
      (''messages_total'', PInt (sum_list (map (\<lambda>(k, c). message_count c) (b_channels b)))),
      (''history_size'', PInt (int (length (b_message_history b))))]"


section \<open>Example values\<close>

text \<open>Messages and subscriptions in the style of the repository's tests.\<close>

definition ex_msg :: "string \<Rightarrow> Priority \<Rightarrow> MessageType \<Rightarrow> SynapseMessage" where
  "ex_msg i p t =
     \<lparr>channel = ''#alerts'', sender = ''t'', payload = [], mtype = t, priority = p,
      mid = i, timestamp = 0, ttl = 0, reply_to = None\<rparr>"

definition ex_sub ::
  "string \<Rightarrow> (SynapseMessage \<Rightarrow> hook_outcome) option \<Rightarrow> Priority \<Rightarrow> MessageType option
     \<Rightarrow> Subscription" where
  "ex_sub a cb pmin tf =
     \<lparr>agent_name = a, sub_channel = ''#alerts'', callback = cb, priority_min = pmin,
      type_filter = tf\<rparr>"


definition ex_roundtrip_msg :: SynapseMessage where
  "ex_roundtrip_msg =
     \<lparr>channel = ''#alerts'', sender = ''agent-a'', payload = [(''data'', PInt 42)],
      mtype = DATA, priority = HIGH, mid = ''0123456789ab'', timestamp = 1500000, ttl = 300,
      reply_to = Some ''abc123''\<rparr>"

definition ex_isoformat :: "datetime \<Rightarrow> string" where
  "ex_isoformat t =
     (if t = 0 then ''1970-01-01T00:00:00+00:00''
      else if t = 1500000 then ''1970-01-01T00:00:01.500000+00:00''
      else ''other'')"

definition ex_fromisoformat :: "string \<Rightarrow> datetime option" where
  "ex_fromisoformat s =
     (if s = ''1970-01-01T00:00:00+00:00'' then Some 0
      else if s = ''1970-01-01T00:00:01.500000+00:00'' then Some 1500000
      else None)"

definition ex_ttl_msg :: SynapseMessage where
  "ex_ttl_msg =
     \<lparr>channel = ''#alerts'', sender = ''t'', payload = [], mtype = EVENT, priority = NORMAL,
      mid = ''m-ttl'', timestamp = 0, ttl = 10, reply_to = None\<rparr>"

definition ex_unregistered_bus :: SynapseBus where
  "ex_unregistered_bus =
     (let b = SynapseBus_init 0 None None;
          r1 = fst (register 0 ''a'' None None None (b_registry b));
          r2 = fst (unregister ''a'' r1)
      in b\<lparr>b_registry := r2\<rparr>)"

text \<open>
  What the dictionary \<^verbatim>\<open>_agents\<close> guarantees by construction: its keys are distinct, and
  \<^verbatim>\<open>register\<close>, the only place that adds an entry, files each agent under its own name.
\<close>

definition wf_registry :: "AgentRegistry \<Rightarrow> bool" where
  "wf_registry r \<longleftrightarrow>
     distinct (map fst (agents r)) \<and> (\<forall>(k, a) \<in> set (agents r). name a = k)"

definition ex_registry :: AgentRegistry where
  "ex_registry =
     fst (register 50000000 ''fresh'' None None None
       (fst (register 0 ''stale'' None None None (AgentRegistry_init 60))))"

section \<open>Notions used in the statements\<close>

text \<open>The \<open>n\<close> most recent entries of a list kept in arrival order.\<close>

definition most_recent :: "nat \<Rightarrow> 'a list \<Rightarrow> 'a list" where
  "most_recent n xs = drop (length xs - n) xs"

text \<open>
  A subscription's hook is contained for a message when calling it ends inside the
  \<^verbatim>\<open>try\<close> of \<^verbatim>\<open>publish\<close>: there is no hook, or the hook returns or raises an \<^verbatim>\<open>Exception\<close>.
\<close>

definition hook_contained :: "SynapseMessage \<Rightarrow> Subscription \<Rightarrow> bool" where
  "hook_contained msg s = (case callback s of None \<Rightarrow> True | Some cb \<Rightarrow> cb msg \<noteq> RaisedBaseException)"

text \<open>
  The subscriptions that the delivery loop reaches: all of them, or those up to the first
  matching one whose hook is not contained.
\<close>

fun reached :: "SynapseMessage \<Rightarrow> Subscription list \<Rightarrow> Subscription list" where
  "reached msg [] = []"
| "reached msg (s # ss) =
     (if matches s msg \<and> \<not> hook_contained msg s then [s] else s # reached msg ss)"




text \<open>A bus with two subscribers on one channel; the hook of the first raises an \<^verbatim>\<open>Exception\<close>.\<close>

definition ex_bus :: SynapseBus where
  "ex_bus =
     fst (subscribe 2 ''agent-b'' ''#alerts'' (Some (\<lambda>m. Returned)) BACKGROUND None
       (fst (subscribe 1 ''agent-a'' ''#alerts'' (Some (\<lambda>m. RaisedException)) BACKGROUND None
         (SynapseBus_init 0 None None))))"



text \<open>
  The persistence step of \<^verbatim>\<open>publish\<close> ends without an exception: the bus has no store, or
  \<^verbatim>\<open>store\<close> returns.
\<close>

definition store_returns :: "sqlite_outcome \<Rightarrow> SynapseMessage \<Rightarrow> MessageStore option \<Rightarrow> bool" where
  "store_returns sq msg sto =
     (case sto of
        None \<Rightarrow> True
      | Some db \<Rightarrow> (case store sq msg db of None \<Rightarrow> False | Some r \<Rightarrow> True))"

text \<open>A span of time in microseconds as whole seconds, truncated towards zero.\<close>

definition trunc_seconds :: "int \<Rightarrow> int" where
  "trunc_seconds d = (if d \<ge> 0 then d div 1000000 else - ((- d) div 1000000))"

text \<open>
  What ties \<open>sql_age\<close> to the clock. When the statement of \<^verbatim>\<open>cleanup_expired\<close> runs at the
  instant \<open>now\<close>, the integer that SQLite computes for a timestamp \<open>ts\<close> is the truncation of
  an age that is within two milliseconds of \<open>now - ts\<close>: up to one millisecond is lost by
  the clock read, half a millisecond by the rounding of the timestamp, and less than a
  tenth of a millisecond by the double-precision arithmetic on Julian day numbers. Nothing
  more is known of an age that close to a whole number of seconds.
\<close>

definition sql_age_near :: "datetime \<Rightarrow> (datetime \<Rightarrow> int) \<Rightarrow> datetime \<Rightarrow> bool" where
  "sql_age_near now sql_age ts \<longleftrightarrow>
     trunc_seconds (now - ts - 2000) \<le> sql_age ts \<and> sql_age ts \<le> trunc_seconds (now - ts + 2000)"




text \<open>
  Three stored rows: \<open>ttl = 10\<close> written at instant 0, \<open>ttl = 10\<close> written one second
  earlier, and \<open>ttl = 0\<close> written at instant 0.
\<close>

definition ex_rows :: MessageStore where
  "ex_rows =
     [row_of ex_ttl_msg,
      row_of (ex_ttl_msg\<lparr>mid := ''m-old'', timestamp := - 1000000\<rparr>),
      row_of (ex_msg ''m0'' NORMAL EVENT)]"

section \<open>Subscription matching\<close>

lemma MessageType_value_nonempty: "MessageType_value t \<noteq> []"
  by (cases t) simp_all

lemma truthy_type_filter_iff: "truthy_type_filter f \<longleftrightarrow> f \<noteq> None"
  by (cases f) (simp_all add: MessageType_value_nonempty)

lemma Priority_value_le_NORMAL:
  "Priority_value p \<le> Priority_value NORMAL \<longleftrightarrow> p \<in> {CRITICAL, HIGH, NORMAL}"
  by (cases p) simp_all

text \<open>
  Claim C1. A message matches a subscription exactly when its priority rank is at most the
  subscription's \<open>priority_min\<close> rank and the type filter is unset or equal to the message's
  type. With \<open>priority_min = NORMAL\<close> and no type filter the matching priorities are CRITICAL,
  HIGH and NORMAL (not LOW, not BACKGROUND); with \<open>type_filter = ALERT\<close> every matching
  message has type ALERT, and under the default floor BACKGROUND every ALERT message matches.
\<close>

theorem matches_iff:
  "(matches s msg \<longleftrightarrow>
      Priority_value (priority msg) \<le> Priority_value (priority_min s)
      \<and> (type_filter s = None \<or> Some (mtype msg) = type_filter s))
   \<and> (priority_min s = NORMAL \<and> type_filter s = None \<longrightarrow>
        (matches s msg \<longleftrightarrow> priority msg \<in> {CRITICAL, HIGH, NORMAL})
        \<and> (priority msg \<in> {LOW, BACKGROUND} \<longrightarrow> \<not> matches s msg))
   \<and> (type_filter s = Some ALERT \<longrightarrow>
        (matches s msg \<longrightarrow> mtype msg = ALERT)
        \<and> (priority_min s = BACKGROUND \<longrightarrow> (matches s msg \<longleftrightarrow> mtype msg = ALERT)))"
proof -
  have rank: "Priority_value (priority msg) \<le> Priority_value BACKGROUND"
    by (cases "priority msg") simp_all
  have main: "matches s msg \<longleftrightarrow>
      Priority_value (priority msg) \<le> Priority_value (priority_min s)
      \<and> (type_filter s = None \<or> Some (mtype msg) = type_filter s)"
    by (auto simp add: matches_def truthy_type_filter_iff)
  have normal: "priority_min s = NORMAL \<and> type_filter s = None \<longrightarrow>
        (matches s msg \<longleftrightarrow> priority msg \<in> {CRITICAL, HIGH, NORMAL})
        \<and> (priority msg \<in> {LOW, BACKGROUND} \<longrightarrow> \<not> matches s msg)"
    unfolding main by (cases "priority msg") auto
  have alert: "type_filter s = Some ALERT \<longrightarrow>
        (matches s msg \<longrightarrow> mtype msg = ALERT)
        \<and> (priority_min s = BACKGROUND \<longrightarrow> (matches s msg \<longleftrightarrow> mtype msg = ALERT))"
    unfolding main using rank by auto
  from main normal alert show ?thesis by blast
qed

theorem matches_iff_witness:
  "priority_min (ex_sub ''a'' None NORMAL None) = NORMAL
   \<and> type_filter (ex_sub ''a'' None NORMAL None) = None
   \<and> matches (ex_sub ''a'' None NORMAL None) (ex_msg ''m1'' HIGH EVENT)
   \<and> \<not> matches (ex_sub ''a'' None NORMAL None) (ex_msg ''m2'' LOW EVENT)
   \<and> type_filter (ex_sub ''a'' None BACKGROUND (Some ALERT)) = Some ALERT
   \<and> matches (ex_sub ''a'' None BACKGROUND (Some ALERT)) (ex_msg ''m3'' NORMAL ALERT)
   \<and> \<not> matches (ex_sub ''a'' None BACKGROUND (Some ALERT)) (ex_msg ''m4'' NORMAL EVENT)"
  using matches_iff [of "ex_sub ''a'' None NORMAL None" "ex_msg ''m1'' HIGH EVENT"]
    matches_iff [of "ex_sub ''a'' None NORMAL None" "ex_msg ''m2'' LOW EVENT"]
    matches_iff [of "ex_sub ''a'' None BACKGROUND (Some ALERT)" "ex_msg ''m3'' NORMAL ALERT"]
    matches_iff [of "ex_sub ''a'' None BACKGROUND (Some ALERT)" "ex_msg ''m4'' NORMAL EVENT"]
  by (simp add: ex_sub_def ex_msg_def)

section \<open>Reading the inbox and the history\<close>



section \<open>Heartbeats\<close>

text \<open>
  Claim C6. \<open>heartbeat\<close> returns \<open>True\<close> for every name. A registered agent gets
  \<open>last_heartbeat = now\<close> and status online, its other fields unchanged; an unknown name is
  registered with a fresh online \<open>AgentInfo\<close>. No other agent's record changes.
\<close>

theorem heartbeat_always_succeeds:
  "snd (heartbeat now nm r) = True
   \<and> get (fst (heartbeat now nm r)) nm =
       (case get r nm of
          Some a \<Rightarrow> Some (a\<lparr>last_heartbeat := now, status := ONLINE\<rparr>)
        | None \<Rightarrow> Some \<lparr>name = nm, capabilities = [], channels = [], status = ONLINE,
                         registered_at = now, last_heartbeat = now, metadata = []\<rparr>)
   \<and> (\<forall>a. get (fst (heartbeat now nm r)) nm = Some a \<longrightarrow> status a = ONLINE \<and> last_heartbeat a = now)
   \<and> (\<forall>other. other \<noteq> nm \<longrightarrow> get (fst (heartbeat now nm r)) other = get r other)"
  by (cases "map_of (agents r) nm")
     (auto simp add: heartbeat_def register_def get_def update_conv' Let_def)

theorem heartbeat_always_succeeds_witness:
  "snd (heartbeat 7 ''ghost'' (AgentRegistry_init 60)) = True
   \<and> get (AgentRegistry_init 60) ''ghost'' = None
   \<and> get (fst (heartbeat 7 ''ghost'' (AgentRegistry_init 60))) ''ghost'' =
       Some \<lparr>name = ''ghost'', capabilities = [], channels = [], status = ONLINE,
             registered_at = 7, last_heartbeat = 7, metadata = []\<rparr>
   \<and> get (fst (heartbeat 7 ''ghost'' (AgentRegistry_init 60))) ''other'' = None"
  using heartbeat_always_succeeds [of 7 "''ghost''" "AgentRegistry_init 60"]
  by (simp add: AgentRegistry_init_def get_def)

section \<open>Wire form of a message\<close>

lemma MessageType_of_value: "MessageType_of (PStr (MessageType_value t)) = Inr t"
  by (cases t) (simp_all add: all_MessageTypes_def)

lemma Priority_of_value: "Priority_of (PInt (Priority_value p)) = Inr p"
  by (cases p) (simp_all add: all_Priorities_def)

lemma from_dict_to_dict:
  assumes "fromiso (isofmt (timestamp m)) = Some (timestamp m)"
  shows "from_dict fromiso (to_dict isofmt m) = Inr m"
proof -
  have "build_message (PStr (mid m)) (PStr (channel m)) (PStr (sender m)) (mtype m) (priority m)
          (PDict (payload m)) (timestamp m) (PInt (ttl m))
          (case reply_to m of None \<Rightarrow> PNone | Some r \<Rightarrow> PStr r) = Inr m"
    by (cases "reply_to m") (simp_all add: build_message_def)
  then show ?thesis
    using assms
    by (simp add: from_dict_def to_dict_def getitem_def get_default_def and_then_def
        MessageType_of_value Priority_of_value
        del: MessageType_of.simps Priority_of.simps Priority_of_int.simps)
qed

text \<open>
  Claim C8. A message serialized by \<open>to_dict\<close> and parsed by \<open>from_dict\<close> is the original
  message, field for field, whenever \<^verbatim>\<open>fromisoformat\<close> reads back what \<^verbatim>\<open>isoformat\<close> wrote
  for its timestamp (the standard library's contract for the two). The wire form holds the
  id unchanged, the type as its lowercase string value and the priority as its integer rank.
\<close>

theorem message_roundtrip:
  "(fromiso (isofmt (timestamp m)) = Some (timestamp m) \<longrightarrow>
      from_dict fromiso (to_dict isofmt m) = Inr m)
   \<and> getitem (to_dict isofmt m) ''id'' = Inr (PStr (mid m))
   \<and> getitem (to_dict isofmt m) ''type'' = Inr (PStr (MessageType_value (mtype m)))
   \<and> MessageType_value (mtype m) \<in>
        {''alert'', ''data'', ''command'', ''query'', ''response'', ''event''}
   \<and> getitem (to_dict isofmt m) ''priority'' = Inr (PInt (Priority_value (priority m)))
   \<and> Priority_value (priority m) \<in> {0, 1, 2, 3, 4}
   \<and> getitem (to_dict isofmt m) ''timestamp'' = Inr (PStr (isofmt (timestamp m)))"
proof -
  have t: "MessageType_value (mtype m) \<in>
        {''alert'', ''data'', ''command'', ''query'', ''response'', ''event''}"
    by (cases "mtype m") simp_all
  have p: "Priority_value (priority m) \<in> {0, 1, 2, 3, 4}"
    by (cases "priority m") simp_all
  show ?thesis
    using t p from_dict_to_dict [of fromiso isofmt m]
    by (simp add: to_dict_def getitem_def)
qed

theorem message_roundtrip_witness:
  "ex_fromisoformat (ex_isoformat (timestamp ex_roundtrip_msg)) = Some (timestamp ex_roundtrip_msg)
   \<and> from_dict ex_fromisoformat (to_dict ex_isoformat ex_roundtrip_msg) = Inr ex_roundtrip_msg
   \<and> getitem (to_dict ex_isoformat ex_roundtrip_msg) ''type'' = Inr (PStr ''data'')
   \<and> getitem (to_dict ex_isoformat ex_roundtrip_msg) ''priority'' = Inr (PInt 1)"
  using message_roundtrip [of ex_fromisoformat ex_isoformat ex_roundtrip_msg]
  by (simp add: ex_fromisoformat_def ex_isoformat_def ex_roundtrip_msg_def)

section \<open>Bus statistics\<close>

lemma stats_agents_online: 
  "map_of (stats b) ''agents_online'' = Some (PInt (int (length (agents (b_registry b)))))"
  by (simp add: stats_def list_agents_def)

text \<open>
  Claim C9. The field \<open>agents_online\<close> of \<open>stats\<close> is the number of all registered agents:
  \<open>list_agents\<close> is called without a status. On a bus whose only agent has been
  unregistered (status offline) the field is 1, while no agent is online.
\<close>

theorem stats_counts_offline_agent:
  "map_of (stats ex_unregistered_bus) ''agents_online'' = Some (PInt 1)
   \<and> list_agents (b_registry ex_unregistered_bus) (Some ONLINE) = []
   \<and> map status (list_agents (b_registry ex_unregistered_bus) None) = [OFFLINE]"
  by (simp add: stats_def list_agents_def ex_unregistered_bus_def SynapseBus_init_def
      default_channels_def create_channel_def register_def unregister_def
      AgentRegistry_init_def Let_def)

section \<open>Durable store\<close>

lemma insert_or_ignore_twice:
  "r_id r2 = r_id r1 \<Longrightarrow> insert_or_ignore r2 (insert_or_ignore r1 db) = insert_or_ignore r1 db"
  by (simp add: insert_or_ignore_def)

lemma insert_or_ignore_distinct:
  "distinct (map r_id db) \<Longrightarrow> distinct (map r_id (insert_or_ignore r db))"
  by (simp add: insert_or_ignore_def)

lemma distinct_filter_id:
  "distinct (map r_id db) \<Longrightarrow> i \<in> set (map r_id db) \<Longrightarrow> length (filter (\<lambda>r. r_id r = i) db) = 1"
proof (induction db)
  case Nil
  then show ?case by simp
next
  case (Cons r db)
  show ?case
  proof (cases "r_id r = i")
    case True
    with Cons.prems have "i \<notin> set (map r_id db)" by auto
    then have "filter (\<lambda>r. r_id r = i) db = []"
      by (auto simp add: filter_empty_conv)
    with True show ?thesis by simp
  next
    case False
    with Cons show ?thesis by auto
  qed
qed

lemma insert_or_ignore_new:
  assumes "r_id r \<notin> set (map r_id db)"
  shows "filter (\<lambda>x. r_id x = r_id r) (insert_or_ignore r db) = [r]"
proof -
  from assms have "\<And>x. x \<in> set db \<Longrightarrow> r_id x \<noteq> r_id r"
    by (metis image_eqI set_map)
  then have "filter (\<lambda>x. r_id x = r_id r) db = []"
    by (simp add: filter_empty_conv)
  with assms show ?thesis by (simp add: insert_or_ignore_def)
qed

lemma insert_or_ignore_mem: "r_id r \<in> set (map r_id (insert_or_ignore r db))"
  by (simp add: insert_or_ignore_def)

lemma store_ok:
  "int64 (ttl m) \<Longrightarrow> store SqliteOk m db = Some (insert_or_ignore (row_of m) db, True)"
  by (simp add: store_def)



lemma one_row_after_insert:
  assumes "distinct (map r_id db)"
  shows "length (filter (\<lambda>r. r_id r = mid m) (insert_or_ignore (row_of m) db)) = 1"
proof -
  have i: "r_id (row_of m) = mid m"
    by (simp add: row_of_def)
  have mem: "mid m \<in> set (map r_id (insert_or_ignore (row_of m) db))"
    using insert_or_ignore_mem [of "row_of m" db] by (simp only: i)
  from assms have "distinct (map r_id (insert_or_ignore (row_of m) db))"
    by (rule insert_or_ignore_distinct)
  then show ?thesis using mem by (rule distinct_filter_id)
qed

lemma first_insert_kept:
  assumes "mid m \<notin> set (map r_id db)"
  shows "filter (\<lambda>r. r_id r = mid m) (insert_or_ignore (row_of m) db) = [row_of m]"
proof -
  have i: "r_id (row_of m) = mid m"
    by (simp add: row_of_def)
  from assms have "r_id (row_of m) \<notin> set (map r_id db)"
    by (simp add: i)
  then have "filter (\<lambda>x. r_id x = r_id (row_of m)) (insert_or_ignore (row_of m) db) = [row_of m]"
    by (rule insert_or_ignore_new)
  then show ?thesis by (simp only: i)
qed

lemma store_twice:
  assumes "mid m2 = mid m1" and "int64 (ttl m1)" and "int64 (ttl m2)"
  shows "store SqliteOk m1 db = Some (insert_or_ignore (row_of m1) db, True)
    \<and> store SqliteOk m2 (insert_or_ignore (row_of m1) db)
        = Some (insert_or_ignore (row_of m1) db, True)"
proof -
  from assms(1) have "r_id (row_of m2) = r_id (row_of m1)"
    by (simp add: row_of_def)
  then have "insert_or_ignore (row_of m2) (insert_or_ignore (row_of m1) db)
      = insert_or_ignore (row_of m1) db"
    by (rule insert_or_ignore_twice)
  with assms(2,3) show ?thesis
    by (simp add: store_ok)
qed

lemma trunc_seconds_above:
  assumes "0 < t" and "(t + 1) * 1000000 \<le> d"
  shows "t < trunc_seconds d"
proof -
  have "d div 1000000 > t \<longleftrightarrow> (t + 1) * 1000000 \<le> d"
    by auto
  moreover from assms have "0 \<le> d" by simp
  ultimately show ?thesis
    using assms(2) by (simp add: trunc_seconds_def)
qed

lemma trunc_seconds_below:
  assumes "0 \<le> t" and "d < (t + 1) * 1000000"
  shows "trunc_seconds d \<le> t"
proof (cases "0 \<le> d")
  case True
  have "d div 1000000 > t \<longleftrightarrow> (t + 1) * 1000000 \<le> d"
    by auto
  with assms(2) have "d div 1000000 \<le> t"
    by simp
  with True show ?thesis
    by (simp add: trunc_seconds_def)
next
  case False
  then have "0 \<le> (- d) div 1000000"
    by (simp add: pos_imp_zdiv_nonneg_iff)
  with False assms(1) show ?thesis
    by (simp add: trunc_seconds_def)
qed

lemma expired_old:
  assumes "sql_age_near now sql_age (r_timestamp r)" and "0 < r_ttl r"
    and "(r_ttl r + 1) * 1000000 + 2000 \<le> now - r_timestamp r"
  shows "expired sql_age r"
proof -
  from assms(3) have "(r_ttl r + 1) * 1000000 \<le> now - r_timestamp r - 2000"
    by simp
  with assms(2) have "r_ttl r < trunc_seconds (now - r_timestamp r - 2000)"
    by (rule trunc_seconds_above)
  also from assms(1) have "\<dots> \<le> sql_age (r_timestamp r)"
    by (simp add: sql_age_near_def)
  finally show ?thesis
    using assms(2) by (simp add: expired_def)
qed

lemma not_expired_young:
  assumes "sql_age_near now sql_age (r_timestamp r)"
    and "now - r_timestamp r \<le> (r_ttl r + 1) * 1000000 - 2001"
  shows "\<not> expired sql_age r"
proof (cases "0 < r_ttl r")
  case True
  then have "0 \<le> r_ttl r" by simp
  moreover from assms(2) have "now - r_timestamp r + 2000 < (r_ttl r + 1) * 1000000"
    by simp
  ultimately have "trunc_seconds (now - r_timestamp r + 2000) \<le> r_ttl r"
    by (rule trunc_seconds_below)
  with assms(1) have "sql_age (r_timestamp r) \<le> r_ttl r"
    by (simp add: sql_age_near_def)
  then show ?thesis
    by (simp add: expired_def)
next
  case False
  then show ?thesis
    by (simp add: expired_def)
qed

lemma cleanup_expired_ok:
  "cleanup_expired SqliteOk sql_age db =
     Some (filter (\<lambda>r. \<not> expired sql_age r) db,
           int (length db) - int (length (filter (\<lambda>r. \<not> expired sql_age r) db)))"
proof -
  have "length (filter (expired sql_age) db) + length (filter (\<lambda>r. \<not> expired sql_age r) db)
      = length db"
    by (rule sum_length_filter_compl)
  then have "int (length (filter (expired sql_age) db))
      = int (length db) - int (length (filter (\<lambda>r. \<not> expired sql_age r) db))"
    by simp
  then show ?thesis
    by (simp add: cleanup_expired_def)
qed

text \<open>
  Claim C5, what the code does. Storing two messages with the same id, one after the
  other, returns \<open>True\<close> both times and the second call changes nothing (SQLite raising no
  error, both \<^verbatim>\<open>ttl\<close> in the signed 64-bit range); in a table whose ids are distinct there
  is then exactly one row with that id, and when the id was new the row is the first
  message's. \<open>cleanup_expired\<close> never deletes a row with \<open>ttl = 0\<close>. It deletes a row with
  \<open>ttl > 0\<close> once its age has reached \<open>ttl + 1\<close> seconds, and keeps it while its age is below
  \<open>ttl + 1\<close> seconds (two milliseconds apart from that bound): the cast to \<^verbatim>\<open>INTEGER\<close> drops
  the fraction of the age, so that a row whose age is between \<open>ttl\<close> and \<open>ttl + 1\<close> seconds
  has expired and is kept. The claim, the docstring of \<^verbatim>\<open>cleanup_expired\<close> and the
  comparison \<^verbatim>\<open>> ttl\<close> ask for its deletion.
\<close>

theorem store_idempotent_cleanup_truncates:
  "(mid m2 = mid m1 \<and> int64 (ttl m1) \<and> int64 (ttl m2) \<longrightarrow>
      (\<exists>db1. store SqliteOk m1 db0 = Some (db1, True)
         \<and> store SqliteOk m2 db1 = Some (db1, True)
         \<and> (distinct (map r_id db0) \<longrightarrow> length (filter (\<lambda>r. r_id r = mid m1) db1) = 1)
         \<and> (mid m1 \<notin> set (map r_id db0) \<longrightarrow>
              filter (\<lambda>r. r_id r = mid m1) db1 = [row_of m1])))
   \<and> (\<exists>kept. cleanup_expired SqliteOk sql_age db
                = Some (kept, int (length db) - int (length kept))
         \<and> (\<forall>r \<in> set kept. r \<in> set db)
         \<and> (\<forall>r \<in> set db. r_ttl r = 0 \<longrightarrow> r \<in> set kept)
         \<and> ((\<forall>r \<in> set db. sql_age_near now sql_age (r_timestamp r)) \<longrightarrow>
              (\<forall>r \<in> set db.
                 (0 < r_ttl r \<and> (r_ttl r + 1) * 1000000 + 2000 \<le> now - r_timestamp r
                    \<longrightarrow> r \<notin> set kept)
               \<and> (now - r_timestamp r \<le> (r_ttl r + 1) * 1000000 - 2001
                    \<longrightarrow> r \<in> set kept))))"
proof (rule conjI)
  show "mid m2 = mid m1 \<and> int64 (ttl m1) \<and> int64 (ttl m2) \<longrightarrow>
      (\<exists>db1. store SqliteOk m1 db0 = Some (db1, True)
         \<and> store SqliteOk m2 db1 = Some (db1, True)
         \<and> (distinct (map r_id db0) \<longrightarrow> length (filter (\<lambda>r. r_id r = mid m1) db1) = 1)
         \<and> (mid m1 \<notin> set (map r_id db0) \<longrightarrow>
              filter (\<lambda>r. r_id r = mid m1) db1 = [row_of m1]))"
  proof
    assume h: "mid m2 = mid m1 \<and> int64 (ttl m1) \<and> int64 (ttl m2)"
    let ?db1 = "insert_or_ignore (row_of m1) db0"
    from h have "mid m2 = mid m1" and "int64 (ttl m1)" and "int64 (ttl m2)"
      by simp_all
    then have "store SqliteOk m1 db0 = Some (?db1, True)
        \<and> store SqliteOk m2 ?db1 = Some (?db1, True)"
      by (rule store_twice)
    moreover have "distinct (map r_id db0) \<longrightarrow> length (filter (\<lambda>r. r_id r = mid m1) ?db1) = 1"
      using one_row_after_insert [of db0 m1] by simp
    moreover have "mid m1 \<notin> set (map r_id db0) \<longrightarrow>
        filter (\<lambda>r. r_id r = mid m1) ?db1 = [row_of m1]"
      using first_insert_kept [of m1 db0] by simp
    ultimately show "\<exists>db1. store SqliteOk m1 db0 = Some (db1, True)
         \<and> store SqliteOk m2 db1 = Some (db1, True)
         \<and> (distinct (map r_id db0) \<longrightarrow> length (filter (\<lambda>r. r_id r = mid m1) db1) = 1)
         \<and> (mid m1 \<notin> set (map r_id db0) \<longrightarrow>
              filter (\<lambda>r. r_id r = mid m1) db1 = [row_of m1])"
      by blast
  qed
next
  let ?kept = "filter (\<lambda>r. \<not> expired sql_age r) db"
  have a: "cleanup_expired SqliteOk sql_age db
      = Some (?kept, int (length db) - int (length ?kept))"
    by (rule cleanup_expired_ok)
  have b: "\<forall>r \<in> set ?kept. r \<in> set db"
    by simp
  have c: "\<forall>r \<in> set db. r_ttl r = 0 \<longrightarrow> r \<in> set ?kept"
    by (simp add: expired_def)
  have d: "(\<forall>r \<in> set db. sql_age_near now sql_age (r_timestamp r)) \<longrightarrow>
      (\<forall>r \<in> set db.
         (0 < r_ttl r \<and> (r_ttl r + 1) * 1000000 + 2000 \<le> now - r_timestamp r
            \<longrightarrow> r \<notin> set ?kept)
       \<and> (now - r_timestamp r \<le> (r_ttl r + 1) * 1000000 - 2001 \<longrightarrow> r \<in> set ?kept))"
  proof (intro impI ballI conjI)
    fix r
    assume near: "\<forall>r \<in> set db. sql_age_near now sql_age (r_timestamp r)" and r: "r \<in> set db"
    then have n: "sql_age_near now sql_age (r_timestamp r)"
      by simp
    show "r \<notin> set ?kept"
      if "0 < r_ttl r \<and> (r_ttl r + 1) * 1000000 + 2000 \<le> now - r_timestamp r"
      using expired_old [OF n] that by simp
    show "r \<in> set ?kept"
      if "now - r_timestamp r \<le> (r_ttl r + 1) * 1000000 - 2001"
      using not_expired_young [OF n that] r by simp
  qed
  from a b c d show "\<exists>kept. cleanup_expired SqliteOk sql_age db
                = Some (kept, int (length db) - int (length kept))
         \<and> (\<forall>r \<in> set kept. r \<in> set db)
         \<and> (\<forall>r \<in> set db. r_ttl r = 0 \<longrightarrow> r \<in> set kept)
         \<and> ((\<forall>r \<in> set db. sql_age_near now sql_age (r_timestamp r)) \<longrightarrow>
              (\<forall>r \<in> set db.
                 (0 < r_ttl r \<and> (r_ttl r + 1) * 1000000 + 2000 \<le> now - r_timestamp r
                    \<longrightarrow> r \<notin> set kept)
               \<and> (now - r_timestamp r \<le> (r_ttl r + 1) * 1000000 - 2001
                    \<longrightarrow> r \<in> set kept)))"
    by blast
qed

lemma ex_rows_near:
  "\<forall>r \<in> set ex_rows. sql_age_near 10500000 (\<lambda>ts. trunc_seconds (10500000 - ts)) (r_timestamp r)"
  by (simp add: ex_rows_def row_of_def ex_ttl_msg_def ex_msg_def sql_age_near_def
      trunc_seconds_def)

theorem store_idempotent_cleanup_truncates_witness:
  "mid (ex_ttl_msg\<lparr>sender := ''u''\<rparr>) = mid ex_ttl_msg
   \<and> int64 (ttl ex_ttl_msg)
   \<and> store SqliteOk ex_ttl_msg [] = Some ([row_of ex_ttl_msg], True)
   \<and> store SqliteOk (ex_ttl_msg\<lparr>sender := ''u''\<rparr>) [row_of ex_ttl_msg]
       = Some ([row_of ex_ttl_msg], True)
   \<and> sql_age_near 10500000 (\<lambda>ts. trunc_seconds (10500000 - ts)) (timestamp ex_ttl_msg)
   \<and> ttl ex_ttl_msg * 1000000 < 10500000 - timestamp ex_ttl_msg
   \<and> cleanup_expired SqliteOk (\<lambda>ts. trunc_seconds (10500000 - ts)) ex_rows
       = Some ([row_of ex_ttl_msg, row_of (ex_msg ''m0'' NORMAL EVENT)], 1)"
  using store_idempotent_cleanup_truncates
    [where ?m2.0 = "ex_ttl_msg\<lparr>sender := ''u''\<rparr>" and ?m1.0 = ex_ttl_msg and ?db0.0 = "[]"
       and db = ex_rows and now = 10500000
       and sql_age = "\<lambda>ts. trunc_seconds (10500000 - ts)"]
    ex_rows_near
  by (simp add: ex_rows_def ex_ttl_msg_def ex_msg_def row_of_def store_def insert_or_ignore_def
      int64_def cleanup_expired_def expired_def sql_age_near_def trunc_seconds_def)

section \<open>Timeout sweep\<close>

lemma check_timeouts_loop_eq:
  "check_timeouts_loop t now xs seen out =
     (seen @ map (\<lambda>(k, a). (k, if status a = ONLINE \<and> timed_out_after t now (last_heartbeat a)
                                 then a\<lparr>status := OFFLINE\<rparr> else a)) xs,
      out @ map (\<lambda>(k, a). name a)
              (filter (\<lambda>(k, a). status a = ONLINE \<and> timed_out_after t now (last_heartbeat a)) xs))"
proof (induction xs arbitrary: seen out)
  case Nil
  show ?case by simp
next
  case (Cons x xs)
  obtain k a where x: "x = (k, a)" by (cases x)
  show ?case unfolding x by (simp add: Cons.IH)
qed

lemma check_timeouts_agents:
  "agents (fst (check_timeouts now r)) =
     map (\<lambda>(k, a). (k, if status a = ONLINE \<and> now - last_heartbeat a > heartbeat_timeout r * 1000000
                         then a\<lparr>status := OFFLINE\<rparr> else a)) (agents r)"
  by (simp add: check_timeouts_def check_timeouts_loop_eq timed_out_after_def)

lemma check_timeouts_names:
  "snd (check_timeouts now r) =
     map (\<lambda>(k, a). name a)
       (filter (\<lambda>(k, a). status a = ONLINE \<and> now - last_heartbeat a > heartbeat_timeout r * 1000000)
          (agents r))"
  by (simp add: check_timeouts_def check_timeouts_loop_eq timed_out_after_def)

lemma check_timeouts_timeout:
  "heartbeat_timeout (fst (check_timeouts now r)) = heartbeat_timeout r"
  by (simp add: check_timeouts_def split: prod.split)

lemma map_of_map_values:
  "map_of (map (\<lambda>(k, a). (k, f a)) xs) k = map_option f (map_of xs k)"
  by (induction xs) auto

lemma check_timeouts_get:
  "get (fst (check_timeouts now r)) k =
     map_option (\<lambda>a. if status a = ONLINE \<and> now - last_heartbeat a > heartbeat_timeout r * 1000000
                      then a\<lparr>status := OFFLINE\<rparr> else a) (get r k)"
  unfolding get_def check_timeouts_agents by (rule map_of_map_values)

lemma wf_names_are_keys:
  assumes "wf_registry r"
  shows "map (\<lambda>(k, a). name a) (filter P (agents r)) = map fst (filter P (agents r))"
proof (rule map_cong [OF refl])
  fix x assume "x \<in> set (filter P (agents r))"
  then have "x \<in> set (agents r)" by simp
  with assms show "(case x of (k, a) \<Rightarrow> name a) = fst x"
    by (auto simp add: wf_registry_def)
qed

lemma check_timeouts_wf:
  assumes "wf_registry r"
  shows "wf_registry (fst (check_timeouts now r))"
proof -
  have keys: "map fst (agents (fst (check_timeouts now r))) = map fst (agents r)"
    unfolding check_timeouts_agents by (induction "agents r") auto
  have "\<forall>(k, a) \<in> set (agents (fst (check_timeouts now r))). name a = k"
    using assms unfolding check_timeouts_agents wf_registry_def by auto
  with assms keys show ?thesis by (simp add: wf_registry_def)
qed


lemma heartbeat_never_demotes:
  assumes "get r k = Some a"
  shows "\<exists>a'. get (fst (heartbeat t nm r)) k = Some a' \<and> (status a' = status a \<or> status a' = ONLINE)"
proof (cases "map_of (agents r) nm")
  case None
  with assms show ?thesis
    by (auto simp add: heartbeat_def register_def get_def update_conv' Let_def)
next
  case (Some b)
  with assms show ?thesis
    by (cases "k = nm") (auto simp add: heartbeat_def get_def update_conv')
qed

lemma register_never_demotes:
  assumes "get r k = Some a"
  shows "\<exists>a'. get (fst (register t nm caps chans meta r)) k = Some a'
           \<and> (status a' = status a \<or> status a' = ONLINE)"
proof (cases "map_of (agents r) nm")
  case None
  with assms show ?thesis
    by (auto simp add: register_def get_def update_conv' Let_def)
next
  case (Some b)
  with assms show ?thesis
    by (cases "k = nm")
       (auto simp add: register_def get_def update_conv' Let_def split: option.splits)
qed

lemma wf_get_iff:
  assumes "wf_registry r"
  shows "get r k = Some a \<longleftrightarrow> (k, a) \<in> set (agents r)"
  using assms by (simp add: wf_registry_def get_def)

lemma check_timeouts_member:
  assumes "wf_registry r"
  shows "k \<in> set (snd (check_timeouts now r)) \<longleftrightarrow>
     (\<exists>a. get r k = Some a \<and> status a = ONLINE
          \<and> now - last_heartbeat a > heartbeat_timeout r * 1000000)"
proof -
  have "k \<in> set (snd (check_timeouts now r)) \<longleftrightarrow>
      (\<exists>a. (k, a) \<in> set (agents r) \<and> status a = ONLINE
           \<and> now - last_heartbeat a > heartbeat_timeout r * 1000000)"
    unfolding check_timeouts_names wf_names_are_keys [OF assms] by force
  then show ?thesis by (simp only: wf_get_iff [OF assms])
qed

lemma check_timeouts_distinct:
  assumes "wf_registry r"
  shows "distinct (snd (check_timeouts now r))"
proof -
  from assms have "distinct (map fst (agents r))"
    by (simp add: wf_registry_def)
  then show ?thesis
    unfolding check_timeouts_names wf_names_are_keys [OF assms] by (rule distinct_map_filter)
qed

text \<open>
  Claim C7. In a registry as \<open>register\<close> builds it, \<open>check_timeouts\<close> returns exactly the names
  of the agents that are online and whose last heartbeat lies more than \<open>heartbeat_timeout\<close>
  seconds before \<open>now\<close> (each name once), sets exactly those agents offline and leaves every
  other record, in particular every online agent inside the window, as it was. No timeout
  demotion happens elsewhere: after \<open>heartbeat\<close> or \<open>register\<close> every agent has its former
  status or is online. (\<open>unregister\<close> sets the named agent offline at the caller's request,
  whatever the time.)
\<close>

theorem check_timeouts_exact:
  assumes "wf_registry r"
  shows "(\<forall>k. k \<in> set (snd (check_timeouts now r)) \<longleftrightarrow>
            (\<exists>a. get r k = Some a \<and> status a = ONLINE
                 \<and> now - last_heartbeat a > heartbeat_timeout r * 1000000))
    \<and> distinct (snd (check_timeouts now r))
    \<and> (\<forall>k. get (fst (check_timeouts now r)) k =
            map_option (\<lambda>a. if status a = ONLINE
                                 \<and> now - last_heartbeat a > heartbeat_timeout r * 1000000
                              then a\<lparr>status := OFFLINE\<rparr> else a) (get r k))
    \<and> (\<forall>k a. get r k = Some a \<and> status a = ONLINE
               \<and> now - last_heartbeat a \<le> heartbeat_timeout r * 1000000
             \<longrightarrow> get (fst (check_timeouts now r)) k = Some a)
    \<and> wf_registry (fst (check_timeouts now r))
    \<and> heartbeat_timeout (fst (check_timeouts now r)) = heartbeat_timeout r
    \<and> (\<forall>t nm k a. get r k = Some a \<longrightarrow>
          (\<exists>a'. get (fst (heartbeat t nm r)) k = Some a'
               \<and> (status a' = status a \<or> status a' = ONLINE)))
    \<and> (\<forall>t nm caps chans meta k a. get r k = Some a \<longrightarrow>
          (\<exists>a'. get (fst (register t nm caps chans meta r)) k = Some a'
               \<and> (status a' = status a \<or> status a' = ONLINE)))"
proof (intro conjI allI impI)
  fix k
  show "k \<in> set (snd (check_timeouts now r)) \<longleftrightarrow>
      (\<exists>a. get r k = Some a \<and> status a = ONLINE
           \<and> now - last_heartbeat a > heartbeat_timeout r * 1000000)"
    using assms by (rule check_timeouts_member)
next
  show "distinct (snd (check_timeouts now r))"
    using assms by (rule check_timeouts_distinct)
next
  fix k
  show "get (fst (check_timeouts now r)) k =
      map_option (\<lambda>a. if status a = ONLINE
                           \<and> now - last_heartbeat a > heartbeat_timeout r * 1000000
                        then a\<lparr>status := OFFLINE\<rparr> else a) (get r k)"
    by (rule check_timeouts_get)
next
  fix k a
  assume "get r k = Some a \<and> status a = ONLINE
      \<and> now - last_heartbeat a \<le> heartbeat_timeout r * 1000000"
  then show "get (fst (check_timeouts now r)) k = Some a"
    by (simp add: check_timeouts_get)
next
  show "wf_registry (fst (check_timeouts now r))"
    using assms by (rule check_timeouts_wf)
next
  show "heartbeat_timeout (fst (check_timeouts now r)) = heartbeat_timeout r"
    by (rule check_timeouts_timeout)
next
  fix t nm k a
  assume "get r k = Some a"
  then show "\<exists>a'. get (fst (heartbeat t nm r)) k = Some a'
      \<and> (status a' = status a \<or> status a' = ONLINE)"
    by (rule heartbeat_never_demotes)
next
  fix t nm caps chans meta k a
  assume "get r k = Some a"
  then show "\<exists>a'. get (fst (register t nm caps chans meta r)) k = Some a'
      \<and> (status a' = status a \<or> status a' = ONLINE)"
    by (rule register_never_demotes)
qed

lemma ex_registry_agents:
  "agents ex_registry =
     [(''stale'', \<lparr>name = ''stale'', capabilities = [], channels = [], status = ONLINE,
                   registered_at = 0, last_heartbeat = 0, metadata = []\<rparr>),
      (''fresh'', \<lparr>name = ''fresh'', capabilities = [], channels = [], status = ONLINE,
                   registered_at = 50000000, last_heartbeat = 50000000, metadata = []\<rparr>)]"
  by (simp add: ex_registry_def register_def AgentRegistry_init_def Let_def)

lemma ex_registry_wf: "wf_registry ex_registry"
  by (simp add: wf_registry_def ex_registry_agents)

theorem check_timeouts_exact_witness:
  "wf_registry ex_registry
   \<and> snd (check_timeouts 61000000 ex_registry) = [''stale'']
   \<and> map_option status (get (fst (check_timeouts 61000000 ex_registry)) ''stale'') = Some OFFLINE
   \<and> map_option status (get (fst (check_timeouts 61000000 ex_registry)) ''fresh'') = Some ONLINE
   \<and> map_option status (get ex_registry ''stale'') = Some ONLINE"
proof -
  have t: "heartbeat_timeout ex_registry = 60"
    by (simp add: ex_registry_def register_def AgentRegistry_init_def Let_def)
  have names: "snd (check_timeouts 61000000 ex_registry) = [''stale'']"
    by (simp add: check_timeouts_names ex_registry_agents t)
  show ?thesis
    using check_timeouts_exact [OF ex_registry_wf, of 61000000] names ex_registry_wf
    by (simp add: get_def ex_registry_agents t)
qed

section \<open>The delivery loop\<close>












lemma deliver_skip:
  assumes "\<not> matches s msg"
  shows "deliver msg (s # ss) inb called d = deliver msg ss inb called d"
  using assms by simp

lemma deliver_match:
  assumes "matches s msg" and "hook_contained msg s"
  shows "deliver msg (s # ss) inb called d =
     deliver msg ss (inb(agent_name s \<mapsto> inbox_append msg (inbox_of inb (agent_name s))))
       (called @ (if callback s = None then [] else [agent_name s])) (d + 1)"
proof (cases "callback s")
  case None
  with assms(1) show ?thesis by (simp add: Let_def)
next
  case (Some cb)
  with assms(2) have "cb msg \<noteq> RaisedBaseException"
    by (simp add: hook_contained_def)
  then have "cb msg = Returned \<or> cb msg = RaisedException"
    by (cases "cb msg") simp_all
  with assms(1) Some show ?thesis
    by (auto simp add: Let_def)
qed

lemma deliver_abort:
  assumes "matches s msg" and "\<not> hook_contained msg s"
  shows "deliver msg (s # ss) inb called d =
     (inb(agent_name s \<mapsto> inbox_append msg (inbox_of inb (agent_name s))),
      called @ [agent_name s], Propagated)"
proof (cases "callback s")
  case None
  with assms(2) show ?thesis by (simp add: hook_contained_def)
next
  case (Some cb)
  with assms(2) have "cb msg = RaisedBaseException"
    by (simp add: hook_contained_def)
  with assms(1) Some show ?thesis
    by (simp add: Let_def)
qed



lemma reached_abort:
  "matches s msg \<Longrightarrow> \<not> hook_contained msg s \<Longrightarrow> reached msg (s # ss) = [s]"
  by simp



lemma deliver_result:
  "snd (snd (deliver msg subs inb called d)) =
     (if \<forall>s \<in> set subs. matches s msg \<longrightarrow> hook_contained msg s
      then Delivered (d + int (length (filter (\<lambda>s. matches s msg) subs)))
      else Propagated)"
proof (induction subs arbitrary: inb called d)
  case Nil
  show ?case by simp
next
  case (Cons s ss)
  show ?case
  proof (cases "matches s msg")
    case False
    then show ?thesis
      by (simp add: deliver_skip Cons.IH del: deliver.simps)
  next
    case True
    note m = this
    show ?thesis
    proof (cases "hook_contained msg s")
      case True
      with m show ?thesis
        by (simp add: deliver_match Cons.IH del: deliver.simps)
    next
      case False
      with m show ?thesis
        by (simp add: deliver_abort del: deliver.simps)
    qed
  qed
qed


section \<open>Publishing\<close>

lemma create_channel_frame:
  "b_subscriptions (fst (create_channel now nm desc b)) = b_subscriptions b"
  "b_inbox (fst (create_channel now nm desc b)) = b_inbox b"
  "b_message_history (fst (create_channel now nm desc b)) = b_message_history b"
  "b_storage (fst (create_channel now nm desc b)) = b_storage b"
  "b_registry (fst (create_channel now nm desc b)) = b_registry b"
  by (simp_all add: create_channel_def Let_def split: option.splits)

lemma create_channel_subs_on: "subs_on (fst (create_channel now nm desc b)) c = subs_on b c"
  by (simp add: subs_on_def create_channel_frame)



lemma publish_end:
  "snd (snd (publish sq now msg b)) =
     (case snd (snd (deliver msg (subs_on b (channel msg)) (b_inbox b) [] 0)) of
        Propagated \<Rightarrow> Propagated
      | Delivered n \<Rightarrow> if store_returns sq msg (b_storage b) then Delivered n else Propagated)"
  by (simp add: publish_def Let_def subs_on_def create_channel_frame store_returns_def
      split: prod.splits publish_end.splits option.splits)

lemma publish_result:
  "snd (snd (publish sq now msg b)) =
     (if (\<forall>s \<in> set (subs_on b (channel msg)). matches s msg \<longrightarrow> hook_contained msg s)
           \<and> store_returns sq msg (b_storage b)
      then Delivered (int (length (filter (\<lambda>s. matches s msg) (subs_on b (channel msg)))))
      else Propagated)"
  by (simp add: publish_end deliver_result)







lemma most_recent_drop_old:
  assumes "n \<le> length ys"
  shows "most_recent n (xs @ ys) = most_recent n ys"
  using assms by (simp add: most_recent_def)







lemma publish_propagates:
  assumes "s \<in> set (subs_on b (channel msg))" and "matches s msg" and "\<not> hook_contained msg s"
  shows "snd (snd (publish sq now msg b)) = Propagated"
proof -
  from assms have "\<not> (\<forall>s \<in> set (subs_on b (channel msg)). matches s msg \<longrightarrow> hook_contained msg s)"
    by blast
  then show ?thesis by (simp add: publish_result)
qed












lemma ex_bus_channel:
  "map_option message_count (get_channel ex_bus ''#alerts'') = Some 0"
  by (simp add: ex_bus_def subscribe_def get_channel_def Let_def
      SynapseBus_init_def default_channels_def create_channel_def)


















section \<open>Bounded inboxes\<close>






end
